(* ===== verification/Go_Prelude.thy ===== *)
theory Go_Prelude
  imports Main "HOL-Library.Word"
begin

text \<open>
  The parts of Go's semantics that the data model of \<open>src/pkg/timeline/types.go\<close>
  relies on, and the lemmas on lists, options and maps that the component theories
  share:
  \<^item> pointers: a pointer receiver \<open>*T\<close> is \<open>T ptr\<close> (\<open>None\<close> is \<open>nil\<close>), and a method
    called on a \<open>nil\<close> receiver panics when it reads a field; results are
    \<open>panic + 'a\<close>, with \<open>Inl\<close> the run-time panic;
  \<^item> the \<open>for _, x := range xs { if ... { return ... } }\<close> loop of every lookup in the
    package, as the index loop \<open>range_first\<close> with its termination measure, and its
    reference \<open>first_some\<close> by structural recursion;
  \<^item> reading a \<open>map[string]string\<close> (\<open>m[k]\<close>), which yields the zero value \<open>""\<close> for an
    absent key;
  \<^item> the value of \<open>time.Time\<close> (a struct of two 64-bit words and a location pointer),
    its zero value, and a heap of \<open>time.Time\<close> cells addressed by \<open>*time.Time\<close>
    pointers, needed where a claim depends on aliasing.
\<close>

named_theorems method_simps "equations of the modelled Go methods on a non-nil receiver"

section \<open>Pointers, receivers and panics\<close>

type_synonym addr = nat

type_synonym 'a ptr = "'a option"

datatype panic = NilPointerDereference

type_synonym 'a result = "panic + 'a"

text \<open>
  \<open>with_receiver p f\<close> is a method body \<open>f\<close> run on the receiver \<open>p\<close>: on \<open>nil\<close> the
  first field access \<open>o.F\<close> panics, otherwise the body runs on the pointee.
\<close>

definition with_receiver :: "'a ptr \<Rightarrow> ('a \<Rightarrow> 'b) \<Rightarrow> 'b result" where
  "with_receiver p f = (case p of None \<Rightarrow> Inl NilPointerDereference | Some v \<Rightarrow> Inr (f v))"

text \<open>A call whose result is used further: a panic propagates, a value is passed on.\<close>

definition result_map :: "('a \<Rightarrow> 'b) \<Rightarrow> 'a result \<Rightarrow> 'b result" where
  "result_map f r = (case r of Inl e \<Rightarrow> Inl e | Inr v \<Rightarrow> Inr (f v))"

section \<open>The range loop with an early return\<close>

text \<open>
  \<^verbatim>\<open>for _, x := range xs { if cond(x) { return v(x) } }\<close>
  Go evaluates the slice once and walks its indices \<open>0 .. len(xs)-1\<close>; the body returns
  early (\<open>Some\<close>) or falls through to the next index (\<open>None\<close>). The loop is not
  structural in its index, so it is a \<^theory_text>\<open>function\<close> whose termination measure is
  the number of indices left.
\<close>

function range_first :: "('a \<Rightarrow> 'b option) \<Rightarrow> 'a list \<Rightarrow> nat \<Rightarrow> 'b option" where
  "range_first body xs i =
     (if i < length xs then
        (case body (xs ! i) of
           Some r \<Rightarrow> Some r
         | None \<Rightarrow> range_first body xs (Suc i))
      else None)"
  by pat_completeness auto
termination
  by (relation "measure (\<lambda>(body, xs, i). length xs - i)") auto

declare range_first.simps [simp del]

text \<open>The reference: the first element on which the body returns, by structural recursion.\<close>

primrec first_some :: "('a \<Rightarrow> 'b option) \<Rightarrow> 'a list \<Rightarrow> 'b option" where
  "first_some body [] = None"
| "first_some body (x # xs) = (case body x of Some r \<Rightarrow> Some r | None \<Rightarrow> first_some body xs)"

section \<open>Reading a Go map\<close>

text \<open>\<open>m[k]\<close> on a \<open>map[K]string\<close>: the stored value, or the zero value \<open>""\<close>.\<close>

definition map_index_string :: "('k \<rightharpoonup> string) \<Rightarrow> 'k \<Rightarrow> string" where
  "map_index_string m k = (case m k of None \<Rightarrow> '''' | Some v \<Rightarrow> v)"

section \<open>\<open>time.Time\<close> and a heap of \<open>*time.Time\<close> cells\<close>

text \<open>
  Go's \<open>time.Time\<close> is \<open>struct { wall uint64; ext int64; loc *Location }\<close>; the zero
  value (January 1, year 1, UTC) has every field zero or \<open>nil\<close>. The package never
  computes with times, it only stores them, so the fields are kept opaque.
\<close>

record GoTime =
  wall :: "64 word"
  ext :: "64 word"
  loc :: "addr ptr"

definition zero_time :: GoTime where
  "zero_time = \<lparr>wall = 0, ext = 0, loc = None\<rparr>"

text \<open>
  A \<open>*time.Time\<close> is an address into the heap of time cells. Reading or writing through
  a \<open>nil\<close> pointer panics.
\<close>

type_synonym time_heap = "addr \<rightharpoonup> GoTime"

definition load_time :: "time_heap \<Rightarrow> addr ptr \<Rightarrow> GoTime option result" where
  "load_time h p = (case p of None \<Rightarrow> Inl NilPointerDereference | Some a \<Rightarrow> Inr (h a))"

definition store_time :: "time_heap \<Rightarrow> addr ptr \<Rightarrow> GoTime \<Rightarrow> time_heap result" where
  "store_time h p x = (case p of None \<Rightarrow> Inl NilPointerDereference | Some a \<Rightarrow> Inr (h(a \<mapsto> x)))"

section \<open>Lemmas\<close>

subsection \<open>Receivers and results\<close>

lemma with_receiver_nil [simp]: "with_receiver None f = Inl NilPointerDereference"
  by (simp add: with_receiver_def)

lemma with_receiver_Some [simp]: "with_receiver (Some v) f = Inr (f v)"
  by (simp add: with_receiver_def)

lemma result_map_Inl [simp]: "result_map f (Inl e) = Inl e"
  by (simp add: result_map_def)

lemma result_map_Inr [simp]: "result_map f (Inr v) = Inr (f v)"
  by (simp add: result_map_def)

subsection \<open>The range loop\<close>

lemma range_first_drop: "range_first body xs i = first_some body (drop i xs)"
proof (induction body xs i rule: range_first.induct)
  case (1 body xs i)
  show ?case
  proof (cases "i < length xs")
    case True
    then have "drop i xs = xs ! i # drop (Suc i) xs"
      by (rule Cons_nth_drop_Suc [symmetric])
    with True "1.IH" show ?thesis
      by (simp add: range_first.simps [of body xs i] split: option.split)
  next
    case False
    then show ?thesis by (simp add: range_first.simps [of body xs i])
  qed
qed

lemma range_first_0 [simp]: "range_first body xs 0 = first_some body xs"
  by (simp add: range_first_drop)

text \<open>A body that returns the element itself under a condition is \<open>List.find\<close>.\<close>

lemma first_some_find: "first_some (\<lambda>x. if P x then Some x else None) xs = find P xs"
  by (induction xs) auto

text \<open>A body that returns \<open>true\<close> under a condition is \<open>\<exists>\<close> over the list.\<close>

lemma first_some_true:
  "first_some (\<lambda>x. if P x then Some True else None) xs = (if \<exists>x \<in> set xs. P x then Some True else None)"
  by (induction xs) auto

lemma find_append_cases:
  "find P (xs @ ys) = (case find P xs of None \<Rightarrow> find P ys | Some x \<Rightarrow> Some x)"
  by (induction xs) auto

subsection \<open>Map reads\<close>

lemma map_index_string_None [simp]: "m k = None \<Longrightarrow> map_index_string m k = ''''"
  by (simp add: map_index_string_def)

lemma map_index_string_Some [simp]: "m k = Some v \<Longrightarrow> map_index_string m k = v"
  by (simp add: map_index_string_def)

subsection \<open>The time heap\<close>

lemma load_store_same:
  "store_time h p x = Inr h' \<Longrightarrow> load_time h' p = Inr (Some x)"
  by (auto simp: load_time_def store_time_def split: option.splits)

lemma load_store_other:
  "store_time h (Some a) x = Inr h' \<Longrightarrow> p \<noteq> Some a \<Longrightarrow> load_time h' p = load_time h p"
  by (cases p) (auto simp: load_time_def store_time_def)

end
