(* ===== verification/API_Resource.thy ===== *)
theory API_Resource
  imports Go_Prelude
begin

text \<open>
  \<open>APIResource\<close> of \<open>src/pkg/timeline/types.go\<close> (lines 70--90): one resource kind of
  an API version, the release strings it exists in, and its single method
  \<open>HasRelease\<close>, a linear scan of \<open>Releases\<close> for an exact string match.
\<close>

section \<open>Data\<close>

record APIResource =
  Kind :: string
  Singular :: string
  Plural :: string
  Archived :: bool
  Scopes :: "string \<rightharpoonup> string"
  Releases :: "string list"
  ReleasesOfInterest :: "string list"
  Description :: string
  DocRelease :: string

section \<open>\<open>(*APIResource).HasRelease\<close>\<close>

definition APIResource_HasRelease :: "APIResource ptr \<Rightarrow> string \<Rightarrow> bool result" where
  "APIResource_HasRelease recv release = with_receiver recv (\<lambda>res.
     (case range_first (\<lambda>r. if r = release then Some True else None) (APIResource.Releases res) 0 of
        Some b \<Rightarrow> b
      | None \<Rightarrow> False))"

section \<open>Lemmas\<close>

lemma APIResource_HasRelease_Some [method_simps]:
  "APIResource_HasRelease (Some res) release = Inr (release \<in> set (APIResource.Releases res))"
  by (simp add: APIResource_HasRelease_def first_some_true)

section \<open>Properties\<close>

text \<open>
  C6: \<open>APIResource.HasRelease\<close> panics on a nil receiver and otherwise is true exactly
  when the argument occurs, by exact string equality, in the resource's \<open>Releases\<close>.
\<close>

theorem APIResource_HasRelease_spec:
  "APIResource_HasRelease recv x =
     (case recv of
        None \<Rightarrow> Inl NilPointerDereference
      | Some res \<Rightarrow> Inr (x \<in> set (APIResource.Releases res)))"
  by (cases recv) (simp_all add: APIResource_HasRelease_def first_some_true)

end
