(* ===== verification/API_Version.thy ===== *)
theory API_Version
  imports API_Resource
begin

text \<open>
  \<open>APIVersion\<close> of \<open>src/pkg/timeline/types.go\<close> (lines 52--68): one version of an API
  group, the release strings it is present in, the resources it exposes, and its method
  \<open>HasRelease\<close>, the same linear scan as the resource's over its own \<open>Releases\<close>.
\<close>

section \<open>Data\<close>

record APIVersion =
  Version :: string
  Archived :: bool
  Releases :: "string list"
  ReleasesOfInterest :: "string list"
  Resources :: "APIResource list"

section \<open>\<open>(*APIVersion).HasRelease\<close>\<close>

definition APIVersion_HasRelease :: "APIVersion ptr \<Rightarrow> string \<Rightarrow> bool result" where
  "APIVersion_HasRelease recv release = with_receiver recv (\<lambda>av.
     (case range_first (\<lambda>r. if r = release then Some True else None) (APIVersion.Releases av) 0 of
        Some b \<Rightarrow> b
      | None \<Rightarrow> False))"

section \<open>Lemmas\<close>

lemma APIVersion_HasRelease_Some [method_simps]:
  "APIVersion_HasRelease (Some av) release = Inr (release \<in> set (APIVersion.Releases av))"
  by (simp add: APIVersion_HasRelease_def first_some_true)

section \<open>Properties\<close>

text \<open>
  C5: \<open>APIVersion.HasRelease\<close> panics on a nil receiver and otherwise is true exactly
  when the argument occurs, by exact string equality, in the version's \<open>Releases\<close>.
\<close>

theorem APIVersion_HasRelease_spec:
  "APIVersion_HasRelease recv x =
     (case recv of
        None \<Rightarrow> Inl NilPointerDereference
      | Some av \<Rightarrow> Inr (x \<in> set (APIVersion.Releases av)))"
  by (cases recv) (simp_all add: APIVersion_HasRelease_def first_some_true)

end
