(* ===== verification/API_Group.thy ===== *)
theory API_Group
  imports API_Version
begin

text \<open>
  \<open>APIGroup\<close> of \<open>src/pkg/timeline/types.go\<close> (lines 38--50): a named group of API
  versions with a map from release string to the preferred API version in that release,
  and its method \<open>PreferredVersion\<close>, a plain map read that yields \<open>""\<close> for an
  absent release.
\<close>

section \<open>Data\<close>

record APIGroup =
  Name :: string
  Archived :: bool
  PreferredVersions :: "string \<rightharpoonup> string"
  ReleasesOfInterest :: "string list"
  APIVersions :: "APIVersion list"

section \<open>\<open>(*APIGroup).PreferredVersion\<close>\<close>

definition APIGroup_PreferredVersion :: "APIGroup ptr \<Rightarrow> string \<Rightarrow> string result" where
  "APIGroup_PreferredVersion recv release =
     with_receiver recv (\<lambda>g. map_index_string (PreferredVersions g) release)"

section \<open>Lemmas\<close>

lemma APIGroup_PreferredVersion_Some [method_simps]:
  "APIGroup_PreferredVersion (Some g) release = Inr (map_index_string (PreferredVersions g) release)"
  by (simp add: APIGroup_PreferredVersion_def)

section \<open>Properties\<close>

text \<open>
  C7: for a release that is not a key of \<open>PreferredVersions\<close>, \<open>PreferredVersion\<close>
  returns the empty string.
\<close>

theorem PreferredVersion_absent:
  assumes "release \<notin> dom (PreferredVersions g)"
  shows "APIGroup_PreferredVersion (Some g) release = Inr ''''"
  using assms by (simp add: APIGroup_PreferredVersion_Some domIff)

theorem PreferredVersion_absent_witness:
  "APIGroup_PreferredVersion
     (Some \<lparr>Name = ''apps'', Archived = False,
            PreferredVersions = [''1.27'' \<mapsto> ''v1'', ''1.28'' \<mapsto> ''v1''],
            ReleasesOfInterest = [], APIVersions = []\<rparr>) ''1.29'' = Inr ''''"
  by (rule PreferredVersion_absent) simp

text \<open>
  C8: for a release that is a key of \<open>PreferredVersions\<close>, \<open>PreferredVersion\<close> returns
  the value stored under it.
\<close>

theorem PreferredVersion_present:
  assumes "PreferredVersions g release = Some v"
  shows "APIGroup_PreferredVersion (Some g) release = Inr v"
  using assms by (simp add: APIGroup_PreferredVersion_Some)

theorem PreferredVersion_present_witness:
  "APIGroup_PreferredVersion
     (Some \<lparr>Name = ''apps'', Archived = False,
            PreferredVersions = [''1.27'' \<mapsto> ''v1'', ''1.28'' \<mapsto> ''v1''],
            ReleasesOfInterest = [], APIVersions = []\<rparr>) ''1.28'' = Inr ''v1''"
  by (rule PreferredVersion_present) simp

end
