(* ===== verification/Timeline_Model.thy ===== *)
theory Timeline_Model
  imports API_Group
begin

text \<open>
  \<open>Timeline\<close> and \<open>ReleaseMetadata\<close> of \<open>src/pkg/timeline/types.go\<close> (lines 8--36): the
  root aggregate, the metadata of one release, and the two methods of \<open>*Timeline\<close>:
  \<open>ReleaseMetadata\<close> (linear scan of \<open>Releases\<close>, first match wins, the zero value
  \<open>ReleaseMetadata{}\<close> when nothing matches) and \<open>HasRelease\<close> (whether the result of
  \<open>ReleaseMetadata\<close> has a non-empty \<open>Version\<close>). Beside them: the abstract contract of
  the lookup (a first-wins map from version to metadata, \<open>release_index\<close>) and the
  well-formedness of the release list the spec expects but the code does not enforce
  (\<open>wf_releases\<close>), and the last-wins index \<open>naive_index\<close> that the spec's design
  notes allow as an optimisation.
\<close>

section \<open>Data\<close>

text \<open>\<open>EndOfLifeDate *time.Time\<close> is a pointer into the heap of time cells.\<close>

record ReleaseMetadata =
  Version :: string
  Released :: bool
  Supported :: bool
  Archived :: bool
  HasDocs :: bool
  ReleaseDate :: GoTime
  EndOfLifeDate :: "addr ptr"
  LatestVersion :: string

record Timeline =
  APIGroups :: "APIGroup list"
  Releases :: "ReleaseMetadata list"

text \<open>The composite literal \<open>ReleaseMetadata{}\<close>: every field at its zero value.\<close>

definition zero_ReleaseMetadata :: ReleaseMetadata where
  "zero_ReleaseMetadata =
     \<lparr>Version = '''', Released = False, Supported = False, Archived = False, HasDocs = False,
      ReleaseDate = zero_time, EndOfLifeDate = None, LatestVersion = ''''\<rparr>"

section \<open>\<open>(*Timeline).ReleaseMetadata\<close> and \<open>(*Timeline).HasRelease\<close>\<close>

definition Timeline_ReleaseMetadata :: "Timeline ptr \<Rightarrow> string \<Rightarrow> ReleaseMetadata result" where
  "Timeline_ReleaseMetadata recv release = with_receiver recv (\<lambda>t.
     (case range_first (\<lambda>r. if ReleaseMetadata.Version r = release then Some r else None)
             (Timeline.Releases t) 0 of
        Some r \<Rightarrow> r
      | None \<Rightarrow> zero_ReleaseMetadata))"

definition Timeline_HasRelease :: "Timeline ptr \<Rightarrow> string \<Rightarrow> bool result" where
  "Timeline_HasRelease recv release =
     result_map (\<lambda>m. ReleaseMetadata.Version m \<noteq> '''') (Timeline_ReleaseMetadata recv release)"

section \<open>Abstract contract and well-formedness\<close>

text \<open>
  What the lookup promises: the releases read as a map from version to metadata in which
  the first entry of a version wins (\<open>map_of\<close> is first-wins).
\<close>

definition release_index :: "Timeline \<Rightarrow> string \<rightharpoonup> ReleaseMetadata" where
  "release_index t = map_of (map (\<lambda>r. (ReleaseMetadata.Version r, r)) (Timeline.Releases t))"

text \<open>
  The optimisation the spec allows (its design notes): an index built once from
  \<open>Releases\<close>, written the natural Go way as
  \<^verbatim>\<open>idx := map[string]ReleaseMetadata{}; for _, r := range o.Releases { idx[r.Version] = r }\<close>.
  A later entry overwrites an earlier one, so the index is last-wins.
\<close>

definition naive_index :: "ReleaseMetadata list \<Rightarrow> string \<rightharpoonup> ReleaseMetadata" where
  "naive_index rs = fold (\<lambda>r idx. idx(ReleaseMetadata.Version r \<mapsto> r)) rs Map.empty"

text \<open>The spec's expectation on \<open>Releases\<close>: versions are unique and non-empty.\<close>

definition wf_releases :: "ReleaseMetadata list \<Rightarrow> bool" where
  "wf_releases rs \<longleftrightarrow> distinct (map ReleaseMetadata.Version rs) \<and> '''' \<notin> set (map ReleaseMetadata.Version rs)"

text \<open>A release entry as an ingestion step would write it, for the worked examples below.\<close>

abbreviation release_entry :: "string \<Rightarrow> string \<Rightarrow> ReleaseMetadata" where
  "release_entry v latest \<equiv> zero_ReleaseMetadata\<lparr>ReleaseMetadata.Version := v, Released := True, LatestVersion := latest\<rparr>"

text \<open>The timeline of the spec's worked example: releases 1.27 and 1.28, no groups.\<close>

abbreviation example_timeline :: Timeline where
  "example_timeline \<equiv>
     \<lparr>APIGroups = [], Timeline.Releases = [release_entry ''1.27'' ''1.27.4'', release_entry ''1.28'' ''1.28.1'']\<rparr>"

section \<open>Lemmas\<close>

lemma zero_ReleaseMetadata_Version [simp]: "ReleaseMetadata.Version zero_ReleaseMetadata = ''''"
  by (simp add: zero_ReleaseMetadata_def)

lemma Timeline_ReleaseMetadata_Some [method_simps]:
  "Timeline_ReleaseMetadata (Some t) release =
     Inr (case find (\<lambda>r. ReleaseMetadata.Version r = release) (Timeline.Releases t) of
            Some r \<Rightarrow> r
          | None \<Rightarrow> zero_ReleaseMetadata)"
proof -
  have "(\<lambda>r. if ReleaseMetadata.Version r = release then Some r else None) =
        (\<lambda>r. if (\<lambda>r. ReleaseMetadata.Version r = release) r then Some r else None)"
    by simp
  then show ?thesis
    by (simp only: Timeline_ReleaseMetadata_def with_receiver_Some range_first_0 first_some_find)
qed

lemma find_key_append:
  "key r = k \<Longrightarrow> k \<notin> key ` set xs \<Longrightarrow> find (\<lambda>x. key x = k) (xs @ r # ys) = Some r"
  by (induction xs) auto

lemma find_key_None: "k \<notin> key ` set xs \<Longrightarrow> find (\<lambda>x. key x = k) xs = None"
  by (auto simp: find_None_iff)

lemma find_key_SomeD: "find (\<lambda>x. key x = k) xs = Some r \<Longrightarrow> r \<in> set xs \<and> key r = k"
  by (auto simp: find_Some_iff)

lemma find_key_distinct:
  "distinct (map key xs) \<Longrightarrow> r \<in> set xs \<Longrightarrow> find (\<lambda>x. key x = key r) xs = Some r"
  by (induction xs) (auto simp: image_iff)

lemma map_of_keyed: "map_of (map (\<lambda>x. (key x, x)) xs) k = find (\<lambda>x. key x = k) xs"
  by (induction xs) auto

lemma fold_keyed_update:
  "fold (\<lambda>r m. m(key r \<mapsto> r)) xs m0 k =
     (case find (\<lambda>x. key x = k) (rev xs) of None \<Rightarrow> m0 k | Some r \<Rightarrow> Some r)"
proof (induction xs arbitrary: m0)
  case Nil
  then show ?case by simp
next
  case (Cons x xs)
  have "fold (\<lambda>r m. m(key r \<mapsto> r)) (x # xs) m0 k = fold (\<lambda>r m. m(key r \<mapsto> r)) xs (m0(key x \<mapsto> x)) k"
    by (simp only: fold_Cons comp_apply)
  also have "\<dots> = (case find (\<lambda>y. key y = k) (rev xs) of None \<Rightarrow> (m0(key x \<mapsto> x)) k | Some r \<Rightarrow> Some r)"
    by (rule Cons.IH)
  also have "\<dots> = (case find (\<lambda>y. key y = k) (rev (x # xs)) of None \<Rightarrow> m0 k | Some r \<Rightarrow> Some r)"
    by (simp add: find_append_cases split: option.split)
  finally show ?case .
qed

lemma find_key_rev:
  assumes "distinct (map key xs)"
  shows "find (\<lambda>x. key x = k) (rev xs) = find (\<lambda>x. key x = k) xs"
proof (cases "k \<in> key ` set xs")
  case True
  then obtain r where r: "r \<in> set xs" "key r = k" by blast
  from assms have "distinct (map key (rev xs))" by (simp add: rev_map [symmetric])
  with r have "find (\<lambda>x. key x = k) (rev xs) = Some r"
    using find_key_distinct [of key "rev xs" r] by simp
  moreover from assms r have "find (\<lambda>x. key x = k) xs = Some r"
    using find_key_distinct [of key xs r] by simp
  ultimately show ?thesis by simp
next
  case False
  then have "k \<notin> key ` set (rev xs)" by simp
  then have "find (\<lambda>x. key x = k) (rev xs) = None" by (rule find_key_None)
  moreover from False have "find (\<lambda>x. key x = k) xs = None" by (rule find_key_None)
  ultimately show ?thesis by simp
qed

lemma Timeline_HasRelease_Some [method_simps]:
  "Timeline_HasRelease (Some t) release =
     Inr (release \<noteq> '''' \<and> release \<in> ReleaseMetadata.Version ` set (Timeline.Releases t))"
proof (cases "find (\<lambda>r. ReleaseMetadata.Version r = release) (Timeline.Releases t)")
  case None
  then have "Timeline_ReleaseMetadata (Some t) release = Inr zero_ReleaseMetadata"
    by (simp only: Timeline_ReleaseMetadata_Some option.case)
  moreover from None have "release \<notin> ReleaseMetadata.Version ` set (Timeline.Releases t)"
    by (auto simp: find_None_iff)
  ultimately show ?thesis
    by (simp only: Timeline_HasRelease_def result_map_Inr zero_ReleaseMetadata_Version) blast
next
  case (Some r)
  then have "Timeline_ReleaseMetadata (Some t) release = Inr r"
    by (simp only: Timeline_ReleaseMetadata_Some option.case)
  moreover from find_key_SomeD [OF Some]
  have "r \<in> set (Timeline.Releases t)" and "ReleaseMetadata.Version r = release"
    by blast+
  ultimately show ?thesis
    by (simp only: Timeline_HasRelease_def result_map_Inr) blast
qed


section \<open>Properties of the release lookup\<close>

text \<open>
  C1: \<open>ReleaseMetadata\<close> returns the first entry of \<open>Releases\<close> whose \<open>Version\<close> equals
  the argument, also when later entries share that version (first match wins).
\<close>

theorem ReleaseMetadata_first_match:
  assumes "Timeline.Releases t = xs @ r # ys"
    and "ReleaseMetadata.Version r = v"
    and "v \<notin> ReleaseMetadata.Version ` set xs"
  shows "Timeline_ReleaseMetadata (Some t) v = Inr r"
  using assms by (simp add: Timeline_ReleaseMetadata_Some find_key_append)

theorem ReleaseMetadata_first_match_witness:
  "Timeline_ReleaseMetadata
     (Some \<lparr>APIGroups = [], Timeline.Releases =
        [release_entry ''1.27'' ''1.27.4'', release_entry ''1.28'' ''1.28.1'', release_entry ''1.28'' ''1.28.9'']\<rparr>)
     ''1.28'' = Inr (release_entry ''1.28'' ''1.28.1'')"
  by (rule ReleaseMetadata_first_match
        [where xs = "[release_entry ''1.27'' ''1.27.4'']" and ys = "[release_entry ''1.28'' ''1.28.9'']"])
     simp_all

text \<open>
  C2: when no entry has the requested version, \<open>ReleaseMetadata\<close> returns the zero value
  \<open>ReleaseMetadata{}\<close> and \<open>HasRelease\<close> returns false.
\<close>

theorem ReleaseMetadata_not_found:
  assumes "v \<notin> ReleaseMetadata.Version ` set (Timeline.Releases t)"
  shows "Timeline_ReleaseMetadata (Some t) v = Inr zero_ReleaseMetadata \<and> Timeline_HasRelease (Some t) v = Inr False"
proof -
  from assms have "find (\<lambda>r. ReleaseMetadata.Version r = v) (Timeline.Releases t) = None"
    by (rule find_key_None)
  then have "Timeline_ReleaseMetadata (Some t) v = Inr zero_ReleaseMetadata"
    by (simp only: Timeline_ReleaseMetadata_Some option.case)
  moreover from assms have "Timeline_HasRelease (Some t) v = Inr False"
    by (simp add: Timeline_HasRelease_Some)
  ultimately show ?thesis ..
qed

theorem ReleaseMetadata_not_found_witness:
  "Timeline_ReleaseMetadata (Some \<lparr>APIGroups = [], Timeline.Releases =
        [release_entry ''1.27'' ''1.27.4'', release_entry ''1.28'' ''1.28.1'']\<rparr>) ''1.29''
     = Inr zero_ReleaseMetadata
   \<and> Timeline_HasRelease (Some \<lparr>APIGroups = [], Timeline.Releases =
        [release_entry ''1.27'' ''1.27.4'', release_entry ''1.28'' ''1.28.1'']\<rparr>) ''1.29'' = Inr False"
  by (rule ReleaseMetadata_not_found) simp

text \<open>
  C3: \<open>HasRelease\<close> panics on a nil receiver, and otherwise is true exactly when the
  argument is non-empty and some entry of \<open>Releases\<close> has it as \<open>Version\<close>.
\<close>

theorem HasRelease_spec:
  "Timeline_HasRelease recv v =
     (case recv of
        None \<Rightarrow> Inl NilPointerDereference
      | Some t \<Rightarrow> Inr (v \<noteq> '''' \<and> v \<in> ReleaseMetadata.Version ` set (Timeline.Releases t)))"
proof (cases recv)
  case None
  then show ?thesis by (simp add: Timeline_HasRelease_def Timeline_ReleaseMetadata_def)
next
  case (Some t)
  then show ?thesis by (simp add: Timeline_HasRelease_Some)
qed

text \<open>
  C4: an entry whose \<open>Version\<close> is empty is returned by \<open>ReleaseMetadata("")\<close>, yet
  \<open>HasRelease("")\<close> reports it absent: the zero-value sentinel collides with it.
\<close>

theorem HasRelease_hides_empty_version:
  assumes "r \<in> set (Timeline.Releases t)" and "ReleaseMetadata.Version r = ''''"
  shows "\<exists>m \<in> set (Timeline.Releases t). ReleaseMetadata.Version m = '''' \<and>
           Timeline_ReleaseMetadata (Some t) '''' = Inr m \<and> Timeline_HasRelease (Some t) '''' = Inr False"
proof -
  have "find (\<lambda>x. ReleaseMetadata.Version x = '''') (Timeline.Releases t) \<noteq> None"
    using assms by (simp only: find_None_iff) blast
  then obtain m where m: "find (\<lambda>x. ReleaseMetadata.Version x = '''') (Timeline.Releases t) = Some m"
    by blast
  from find_key_SomeD [OF m] have "m \<in> set (Timeline.Releases t)" and "ReleaseMetadata.Version m = ''''"
    by blast+
  moreover from m have "Timeline_ReleaseMetadata (Some t) '''' = Inr m"
    by (simp only: Timeline_ReleaseMetadata_Some option.case)
  moreover have "Timeline_HasRelease (Some t) '''' = Inr False"
    by (simp add: Timeline_HasRelease_Some)
  ultimately show ?thesis by blast
qed

theorem HasRelease_hides_empty_version_witness:
  "\<exists>m \<in> set [release_entry '''' ''0.0.1'', release_entry ''1.28'' ''1.28.1'']. ReleaseMetadata.Version m = '''' \<and>
     Timeline_ReleaseMetadata (Some \<lparr>APIGroups = [],
       Timeline.Releases = [release_entry '''' ''0.0.1'', release_entry ''1.28'' ''1.28.1'']\<rparr>) '''' = Inr m \<and>
     Timeline_HasRelease (Some \<lparr>APIGroups = [],
       Timeline.Releases = [release_entry '''' ''0.0.1'', release_entry ''1.28'' ''1.28.1'']\<rparr>) '''' = Inr False"
  using HasRelease_hides_empty_version [where r = "release_entry '''' ''0.0.1''"
      and t = "\<lparr>APIGroups = [], Timeline.Releases = [release_entry '''' ''0.0.1'', release_entry ''1.28'' ''1.28.1'']\<rparr>"]
  by simp

section \<open>Refinement of the abstract lookup contract\<close>

text \<open>
  C9: \<open>ReleaseMetadata\<close> and \<open>HasRelease\<close> implement the abstract contract: reading the
  releases as a first-wins map from version to metadata, \<open>ReleaseMetadata\<close> is the map
  read with the zero value as default, and \<open>HasRelease\<close> is membership of a non-empty
  version in the map's domain.
\<close>

theorem ReleaseMetadata_refines_index:
  "Timeline_ReleaseMetadata (Some t) v =
     Inr (case release_index t v of None \<Rightarrow> zero_ReleaseMetadata | Some r \<Rightarrow> r) \<and>
   Timeline_HasRelease (Some t) v = Inr (v \<noteq> '''' \<and> v \<in> dom (release_index t))"
proof -
  have idx: "release_index t v = find (\<lambda>r. ReleaseMetadata.Version r = v) (Timeline.Releases t)"
    by (simp add: release_index_def map_of_keyed)
  have dom: "v \<in> dom (release_index t) \<longleftrightarrow> v \<in> ReleaseMetadata.Version ` set (Timeline.Releases t)"
    by (simp add: release_index_def dom_map_of_conv_image_fst image_image)
  show ?thesis
    by (simp only: idx dom Timeline_ReleaseMetadata_Some Timeline_HasRelease_Some)
qed

section \<open>What a lookup can return\<close>

text \<open>
  C10: the value \<open>ReleaseMetadata\<close> returns is either an entry of \<open>Releases\<close> with the
  requested version or the zero value; it never invents metadata.
\<close>

theorem ReleaseMetadata_result_cases:
  assumes "Timeline_ReleaseMetadata (Some t) v = Inr m"
  shows "(m \<in> set (Timeline.Releases t) \<and> ReleaseMetadata.Version m = v) \<or> m = zero_ReleaseMetadata"
proof (cases "find (\<lambda>r. ReleaseMetadata.Version r = v) (Timeline.Releases t)")
  case None
  with assms have "m = zero_ReleaseMetadata"
    by (simp only: Timeline_ReleaseMetadata_Some option.case sum.inject)
  then show ?thesis ..
next
  case (Some r)
  with assms have "m = r"
    by (simp only: Timeline_ReleaseMetadata_Some option.case sum.inject)
  with find_key_SomeD [OF Some] show ?thesis by blast
qed

theorem ReleaseMetadata_result_cases_witness:
  "Timeline_ReleaseMetadata (Some example_timeline) ''1.28'' = Inr (release_entry ''1.28'' ''1.28.1'') \<and>
   ((release_entry ''1.28'' ''1.28.1'' \<in> set (Timeline.Releases example_timeline) \<and>
     ReleaseMetadata.Version (release_entry ''1.28'' ''1.28.1'') = ''1.28'') \<or>
    release_entry ''1.28'' ''1.28.1'' = zero_ReleaseMetadata)"
proof -
  have h: "Timeline_ReleaseMetadata (Some example_timeline) ''1.28'' = Inr (release_entry ''1.28'' ''1.28.1'')"
    by (simp add: Timeline_ReleaseMetadata_Some)
  show ?thesis using h ReleaseMetadata_result_cases [OF h] by blast
qed

section \<open>Well-formed release lists\<close>

text \<open>
  C11: on a release list with unique, non-empty versions (what the spec expects of the
  loader), looking up the version of any entry returns exactly that entry, and
  \<open>HasRelease\<close> reports it present.
\<close>

theorem wf_releases_exact_lookup:
  assumes "wf_releases (Timeline.Releases t)" and "r \<in> set (Timeline.Releases t)"
  shows "Timeline_ReleaseMetadata (Some t) (ReleaseMetadata.Version r) = Inr r \<and>
         Timeline_HasRelease (Some t) (ReleaseMetadata.Version r) = Inr True"
proof -
  from assms have "find (\<lambda>x. ReleaseMetadata.Version x = ReleaseMetadata.Version r) (Timeline.Releases t) = Some r"
    by (simp add: wf_releases_def find_key_distinct)
  then have "Timeline_ReleaseMetadata (Some t) (ReleaseMetadata.Version r) = Inr r"
    by (simp only: Timeline_ReleaseMetadata_Some option.case)
  moreover from assms have "ReleaseMetadata.Version r \<noteq> ''''"
    by (force simp: wf_releases_def)
  with assms(2) have "Timeline_HasRelease (Some t) (ReleaseMetadata.Version r) = Inr True"
    by (simp add: Timeline_HasRelease_Some)
  ultimately show ?thesis ..
qed

theorem wf_releases_exact_lookup_witness:
  "Timeline_ReleaseMetadata (Some example_timeline) ''1.27'' = Inr (release_entry ''1.27'' ''1.27.4'') \<and>
   Timeline_HasRelease (Some example_timeline) ''1.27'' = Inr True"
proof -
  have wf: "wf_releases (Timeline.Releases example_timeline)"
    by (simp add: wf_releases_def)
  have mem: "release_entry ''1.27'' ''1.27.4'' \<in> set (Timeline.Releases example_timeline)"
    by simp
  from wf_releases_exact_lookup [OF wf mem] show ?thesis by simp
qed

section \<open>The index optimisation\<close>

text \<open>
  C14: when the versions in \<open>Releases\<close> are unique, looking a version up in the
  last-wins index built once from \<open>Releases\<close> gives what \<open>ReleaseMetadata\<close> returns
  (with the zero value for a miss): the optimisation the spec allows preserves behaviour.
\<close>

theorem naive_index_agrees:
  assumes "distinct (map ReleaseMetadata.Version (Timeline.Releases t))"
  shows "Timeline_ReleaseMetadata (Some t) v =
           Inr (case naive_index (Timeline.Releases t) v of None \<Rightarrow> zero_ReleaseMetadata | Some r \<Rightarrow> r)"
  using assms
  by (simp add: naive_index_def fold_keyed_update find_key_rev Timeline_ReleaseMetadata_Some split: option.split)

theorem naive_index_agrees_witness:
  "Timeline_ReleaseMetadata (Some example_timeline) ''1.28'' =
     Inr (case naive_index (Timeline.Releases example_timeline) ''1.28'' of
            None \<Rightarrow> zero_ReleaseMetadata | Some r \<Rightarrow> r)"
  by (rule naive_index_agrees) simp

end
