(* ===== verification/Spec2Isabelle.thy ===== *)
theory Spec2Isabelle
  imports Timeline_Model
begin

text \<open>
  \<^bold>\<open>A verified model of the timeline data model of kube-api-timeline.\<close>

  The repository's Go package \<open>timeline\<close> (\<open>src/pkg/timeline/types.go\<close>, 90 lines) is a
  passive aggregate built once by an external loader and read by templates. It has four
  struct types and five read-only methods, all with pointer receivers:
  \<^item> \<open>Timeline\<close> (groups and releases) with \<open>ReleaseMetadata(release)\<close>, a range loop
    over \<open>Releases\<close> returning the first entry whose \<open>Version\<close> matches or the zero value
    \<open>ReleaseMetadata{}\<close>, and \<open>HasRelease(release)\<close>, which calls it and tests the
    result's \<open>Version\<close> against \<open>""\<close>;
  \<^item> \<open>APIGroup\<close> with \<open>PreferredVersion(release)\<close>, a read of the map
    \<open>PreferredVersions\<close> (\<open>""\<close> for an absent key);
  \<^item> \<open>APIVersion\<close> and \<open>APIResource\<close>, each with \<open>HasRelease(release)\<close>, a range loop
    over its own \<open>Releases\<close> strings.
  Entities refer to releases only by version strings; nothing checks those references.

  \<^bold>\<open>Library.\<close>
  \<^item> \<open>Go_Prelude\<close>: the Go semantics the package relies on. A pointer receiver is
    \<open>'a ptr\<close> (\<open>None\<close> is \<open>nil\<close>); a method result is \<open>panic + 'a\<close>, where
    \<open>with_receiver\<close> makes a field access on \<open>nil\<close> the panic
    \<open>NilPointerDereference\<close> and \<open>result_map\<close> propagates it through a call. The loop
    \<open>for _, x := range xs { if .. { return .. } }\<close> is \<open>range_first\<close>, an index loop
    defined with \<^theory_text>\<open>function\<close> and terminating by the measure \<open>length xs - i\<close>;
    \<open>range_first_drop\<close> proves it equal to the structural reference \<open>first_some\<close>, and
    \<open>first_some_find\<close> / \<open>first_some_true\<close> connect it to \<open>find\<close> and membership.
    \<open>map_index_string\<close> is Go's \<open>m[k]\<close> on a \<open>map[string]string\<close>. \<open>time.Time\<close> is
    the opaque record \<open>GoTime\<close> (two 64-bit words and a location pointer) with its zero
    value; \<open>*time.Time\<close> is an address into a heap \<open>time_heap\<close> read and written by
    \<open>load_time\<close> and \<open>store_time\<close>. The collection \<open>method_simps\<close> holds each
    method's equation on a non-nil receiver.
  \<^item> \<open>API_Resource\<close>, \<open>API_Version\<close>, \<open>API_Group\<close>: one record per struct, with the
    Go field names (qualified, e.g. \<open>APIVersion.Releases\<close>, where structs share a field
    name), and the methods \<open>APIResource_HasRelease\<close>, \<open>APIVersion_HasRelease\<close>,
    \<open>APIGroup_PreferredVersion\<close>; claims C5--C8.
  \<^item> \<open>Timeline_Model\<close>: the records \<open>ReleaseMetadata\<close> and \<open>Timeline\<close>, the literal
    \<open>zero_ReleaseMetadata\<close>, the methods \<open>Timeline_ReleaseMetadata\<close> and
    \<open>Timeline_HasRelease\<close>; the abstract contract \<open>release_index\<close> (a first-wins map from
    version to metadata) and the loader's expected well-formedness \<open>wf_releases\<close>
    (unique, non-empty versions); the index \<open>naive_index\<close> that the spec's design
    notes allow as an optimisation, written the natural Go way (last write wins);
    claims C1--C4, C9--C11 and C14.
  \<^item> this theory: the cross-entity predicate \<open>releases_consistent\<close> and the properties
    spanning components (C12, C13).

  \<^bold>\<open>What is shown.\<close> The lookup returns the first match (C1), the zero value when there
  is none (C2), and \<open>HasRelease\<close> panics on \<open>nil\<close> and is otherwise membership of a
  non-empty version (C3); an entry with an empty version is found but reported absent
  (C4). The version and resource scans panic on \<open>nil\<close> and are otherwise exact
  membership (C5, C6); \<open>PreferredVersion\<close> is the map read with \<open>""\<close> as default (C7,
  C8). The timeline methods refine the abstract first-wins map contract (C9), never return
  anything but a matching entry or the zero value (C10), and are exact on well-formed
  release lists (C11). Consistent references make version- and resource-level presence
  imply timeline-level presence (C12). The value returned by \<open>ReleaseMetadata\<close> is a
  shallow copy: a write through its \<open>EndOfLifeDate\<close> pointer reaches the timeline's
  entry and only the entries sharing that pointer (C13). The index optimisation of the
  spec's design notes agrees with the lookup when versions are unique (C14).

  \<^bold>\<open>Bounds and fuel.\<close> None are needed: every loop is over a finite list and is a total
  function; no integer arithmetic occurs in the package.

  \<^bold>\<open>Not modelled.\<close> \<open>time.Time\<close>'s operations (the package only stores times); the
  loader that builds a \<open>Timeline\<close> and the templates that read it, which are not part of
  this repository (the model takes any \<open>Timeline\<close> value); concurrency, since the package
  has none. The plan for later work: a model of the template-side queries built from
  these accessors, and a validated construction phase establishing
  \<open>wf_releases\<close> and \<open>releases_consistent\<close>.
\<close>

section \<open>Cross-entity consistency\<close>

text \<open>
  The spec's open question: every release string an API version or resource lists should
  name a release of the timeline. The code never checks it; here it is a predicate on a
  timeline, so that what it buys can be stated.
\<close>

definition releases_consistent :: "Timeline \<Rightarrow> bool" where
  "releases_consistent t \<longleftrightarrow>
     (\<forall>g \<in> set (APIGroups t). \<forall>av \<in> set (APIVersions g).
        set (APIVersion.Releases av) \<subseteq> ReleaseMetadata.Version ` set (Timeline.Releases t) \<and>
        (\<forall>res \<in> set (Resources av).
           set (APIResource.Releases res) \<subseteq> ReleaseMetadata.Version ` set (Timeline.Releases t)))"

text \<open>Worked examples: the \<open>apps\<close> group with version \<open>v1\<close> and resource \<open>Deployment\<close>.\<close>

abbreviation deployment_resource :: "string list \<Rightarrow> APIResource" where
  "deployment_resource rels \<equiv>
     \<lparr>Kind = ''Deployment'', Singular = ''deployment'', Plural = ''deployments'',
      APIResource.Archived = False, Scopes = [''1.27'' \<mapsto> ''Namespaced''],
      APIResource.Releases = rels, APIResource.ReleasesOfInterest = [],
      Description = '''', DocRelease = ''1.27''\<rparr>"

abbreviation apps_v1 :: "string list \<Rightarrow> APIVersion" where
  "apps_v1 rels \<equiv>
     \<lparr>APIVersion.Version = ''v1'', APIVersion.Archived = False, APIVersion.Releases = rels,
      APIVersion.ReleasesOfInterest = [], Resources = [deployment_resource rels]\<rparr>"

abbreviation apps_group :: "string list \<Rightarrow> APIGroup" where
  "apps_group rels \<equiv>
     \<lparr>Name = ''apps'', APIGroup.Archived = False, PreferredVersions = [''1.27'' \<mapsto> ''v1''],
      APIGroup.ReleasesOfInterest = [], APIVersions = [apps_v1 rels]\<rparr>"

abbreviation apps_timeline :: "string list \<Rightarrow> Timeline" where
  "apps_timeline rels \<equiv>
     \<lparr>APIGroups = [apps_group rels],
      Timeline.Releases = [release_entry ''1.27'' ''1.27.4'', release_entry ''1.28'' ''1.28.1'']\<rparr>"

section \<open>Versions and resources against the timeline's releases\<close>

text \<open>
  C12: in a consistent timeline, a non-empty release that an API version of one of its
  groups, or a resource of such a version, reports with \<open>HasRelease\<close> is also reported
  by the timeline's \<open>HasRelease\<close>.
\<close>

theorem consistent_release_known:
  assumes "releases_consistent t"
    and "g \<in> set (APIGroups t)" and "av \<in> set (APIVersions g)"
    and "APIVersion_HasRelease (Some av) rel = Inr True \<or>
         (\<exists>res \<in> set (Resources av). APIResource_HasRelease (Some res) rel = Inr True)"
    and "rel \<noteq> ''''"
  shows "Timeline_HasRelease (Some t) rel = Inr True"
proof -
  from assms(4) have "rel \<in> set (APIVersion.Releases av) \<or>
      (\<exists>res \<in> set (Resources av). rel \<in> set (APIResource.Releases res))"
    by (simp add: method_simps)
  with assms(1-3) have "rel \<in> ReleaseMetadata.Version ` set (Timeline.Releases t)"
    unfolding releases_consistent_def by blast
  with assms(5) show ?thesis by (simp add: method_simps)
qed

theorem consistent_release_known_witness:
  "Timeline_HasRelease (Some (apps_timeline [''1.27'', ''1.28''])) ''1.28'' = Inr True"
proof (rule consistent_release_known)
  show "releases_consistent (apps_timeline [''1.27'', ''1.28''])"
    by (simp add: releases_consistent_def)
  show "apps_group [''1.27'', ''1.28''] \<in> set (APIGroups (apps_timeline [''1.27'', ''1.28'']))"
    by simp
  show "apps_v1 [''1.27'', ''1.28''] \<in> set (APIVersions (apps_group [''1.27'', ''1.28'']))"
    by simp
  show "APIVersion_HasRelease (Some (apps_v1 [''1.27'', ''1.28''])) ''1.28'' = Inr True \<or>
    (\<exists>res \<in> set (Resources (apps_v1 [''1.27'', ''1.28''])). APIResource_HasRelease (Some res) ''1.28'' = Inr True)"
    by (simp add: method_simps)
  show "''1.28'' \<noteq> ''''" by simp
qed

section \<open>The returned metadata is a shallow copy\<close>

text \<open>
  C13: \<open>ReleaseMetadata\<close> returns a copy of the first matching entry, but the copy's
  \<open>EndOfLifeDate\<close> is the entry's own \<open>*time.Time\<close> pointer. A caller that writes a new
  end-of-life date through the returned value succeeds, the timeline's entry then reads
  the new date, and only entries sharing that pointer see the write.
\<close>

theorem ReleaseMetadata_copy_aliases_end_of_life:
  assumes "Timeline.Releases t = xs @ r # ys"
    and "ReleaseMetadata.Version r = v"
    and "v \<notin> ReleaseMetadata.Version ` set xs"
    and "EndOfLifeDate r = Some a"
  shows "\<exists>m h'. Timeline_ReleaseMetadata (Some t) v = Inr m \<and>
           store_time h (EndOfLifeDate m) x = Inr h' \<and>
           load_time h' (EndOfLifeDate r) = Inr (Some x) \<and>
           (\<forall>q \<in> set (Timeline.Releases t). EndOfLifeDate q \<noteq> Some a \<longrightarrow>
              load_time h' (EndOfLifeDate q) = load_time h (EndOfLifeDate q))"
proof -
  from assms(2,3) have "find (\<lambda>q. ReleaseMetadata.Version q = v) (xs @ r # ys) = Some r"
    by (rule find_key_append)
  with assms(1) have "find (\<lambda>q. ReleaseMetadata.Version q = v) (Timeline.Releases t) = Some r"
    by (simp only:)
  then have found: "Timeline_ReleaseMetadata (Some t) v = Inr r"
    by (simp only: Timeline_ReleaseMetadata_Some option.case)
  have stored: "store_time h (EndOfLifeDate r) x = Inr (h(a \<mapsto> x))"
    using assms(4) by (simp add: store_time_def)
  then have "load_time (h(a \<mapsto> x)) (EndOfLifeDate r) = Inr (Some x)"
    by (rule load_store_same)
  moreover have "\<forall>q \<in> set (Timeline.Releases t). EndOfLifeDate q \<noteq> Some a \<longrightarrow>
      load_time (h(a \<mapsto> x)) (EndOfLifeDate q) = load_time h (EndOfLifeDate q)"
    using stored assms(4) by (auto intro: load_store_other)
  ultimately show ?thesis
    using found stored by blast
qed

theorem ReleaseMetadata_copy_aliases_end_of_life_witness:
  "\<exists>m h'. Timeline_ReleaseMetadata (Some \<lparr>APIGroups = [], Timeline.Releases =
        [release_entry ''1.27'' ''1.27.4''\<lparr>EndOfLifeDate := Some 8\<rparr>,
         release_entry ''1.28'' ''1.28.1''\<lparr>EndOfLifeDate := Some 7\<rparr>]\<rparr>) ''1.28'' = Inr m \<and>
     store_time [7 \<mapsto> zero_time, 8 \<mapsto> zero_time] (EndOfLifeDate m) (zero_time\<lparr>wall := 42\<rparr>) = Inr h' \<and>
     load_time h' (Some 7) = Inr (Some (zero_time\<lparr>wall := 42\<rparr>)) \<and>
     (\<forall>q \<in> set [release_entry ''1.27'' ''1.27.4''\<lparr>EndOfLifeDate := Some 8\<rparr>,
                 release_entry ''1.28'' ''1.28.1''\<lparr>EndOfLifeDate := Some 7\<rparr>].
        EndOfLifeDate q \<noteq> Some 7 \<longrightarrow>
        load_time h' (EndOfLifeDate q) = load_time [7 \<mapsto> zero_time, 8 \<mapsto> zero_time] (EndOfLifeDate q))"
  using ReleaseMetadata_copy_aliases_end_of_life
      [where xs = "[release_entry ''1.27'' ''1.27.4''\<lparr>EndOfLifeDate := Some 8\<rparr>]" and ys = "[]"
         and r = "release_entry ''1.28'' ''1.28.1''\<lparr>EndOfLifeDate := Some 7\<rparr>" and v = "''1.28''" and a = 7
         and t = "\<lparr>APIGroups = [], Timeline.Releases =
           [release_entry ''1.27'' ''1.27.4''\<lparr>EndOfLifeDate := Some 8\<rparr>,
            release_entry ''1.28'' ''1.28.1''\<lparr>EndOfLifeDate := Some 7\<rparr>]\<rparr>"
         and h = "[7 \<mapsto> zero_time, 8 \<mapsto> zero_time]" and x = "zero_time\<lparr>wall := 42\<rparr>"]
  by simp

end
